theory Spec2Isabelle
  imports Main "HOL-Library.Multiset"
begin

section \<open>JavaScript values\<close>

text \<open>
  The alert model of \<^verbatim>\<open>src/types/AlertTypes.js\<close> computes with JavaScript numbers,
  which are IEEE 754 doubles. Every number it reads or produces is an integer (a count
  of milliseconds, days, hours or minutes, an intensity) or \<^verbatim>\<open>NaN\<close>; the type \<open>number\<close>
  has these two cases, and an integer it holds stands for a double. Arithmetic with
  \<^verbatim>\<open>NaN\<close> gives \<^verbatim>\<open>NaN\<close>, every comparison with \<^verbatim>\<open>NaN\<close> is false.
\<close>

datatype number = Num int | NaN

datatype error = TypeError

text \<open>
  A double has 53 significant bits: every integer of magnitude up to \<open>2 ^ 53\<close> is a
  double, and a larger one is rounded to the nearest integer with 53 significant bits,
  a tie going to the one whose last significant bit is 0. The sum, difference and
  product of two doubles is the exact result rounded in this way. The model has no
  infinity: a result beyond the largest double is outside it.
\<close>

fun bitlen :: "nat \<Rightarrow> nat" where
  "bitlen n = (if n = 0 then 0 else Suc (bitlen (n div 2)))"

definition toDouble :: "int \<Rightarrow> int" where
  "toDouble x =
    (if \<bar>x\<bar> \<le> 9007199254740992 then x
     else
       let u = 2 ^ (bitlen (nat \<bar>x\<bar>) - 53);
           q = \<bar>x\<bar> div u;
           r = \<bar>x\<bar> mod u;
           q' = (if u < 2 * r \<or> (2 * r = u \<and> odd q) then q + 1 else q)
       in sgn x * (q' * u))"

fun num_add :: "number \<Rightarrow> number \<Rightarrow> number" where
  "num_add (Num a) (Num b) = Num (toDouble (a + b))"
| "num_add _ _ = NaN"

fun num_sub :: "number \<Rightarrow> number \<Rightarrow> number" where
  "num_sub (Num a) (Num b) = Num (toDouble (a - b))"
| "num_sub _ _ = NaN"

fun num_mul :: "number \<Rightarrow> number \<Rightarrow> number" where
  "num_mul (Num a) (Num b) = Num (toDouble (a * b))"
| "num_mul _ _ = NaN"

fun num_gt :: "number \<Rightarrow> number \<Rightarrow> bool" where
  "num_gt (Num a) (Num b) = (a > b)"
| "num_gt _ _ = False"

text \<open>\<^verbatim>\<open>Math.min\<close> of two numbers is \<^verbatim>\<open>NaN\<close> when either is.\<close>

fun num_min :: "number \<Rightarrow> number \<Rightarrow> number" where
  "num_min (Num a) (Num b) = Num (min a b)"
| "num_min _ _ = NaN"

text \<open>
  \<^verbatim>\<open>x % c\<close> is the remainder of the division that truncates toward zero: it has the
  sign of \<open>x\<close>, and it is exact. \<^verbatim>\<open>Math.floor(x / c)\<close> rounds the quotient down. Both
  are used only in \<^verbatim>\<open>calculateDuration\<close>, with the constants 86400000, 3600000 and
  60000 and a difference \<open>x\<close> of two time values, of magnitude at most 17280000000000000.
  There the rounding of the quotient \<^verbatim>\<open>x / c\<close> to a double never reaches the next
  integer, so the floor is that of the exact quotient: a quotient that is not an
  integer is at least \<open>1 / c\<close> away from one (\<open>2 / c\<close> when \<open>x\<close> exceeds \<open>2 ^ 53\<close> and
  is therefore even), which is more than half the distance between neighbouring
  doubles of its size.
\<close>

fun num_rem :: "number \<Rightarrow> int \<Rightarrow> number" where
  "num_rem (Num x) c = Num (if 0 \<le> x then x mod c else - ((- x) mod c))"
| "num_rem NaN c = NaN"

fun floor_div :: "number \<Rightarrow> int \<Rightarrow> number" where
  "floor_div (Num x) c = Num (x div c)"
| "floor_div NaN c = NaN"

text \<open>
  The \<^verbatim>\<open>Date\<close> object belongs to the JavaScript engine, not to the repository. The
  model takes what the code reads from it as a parameter: the time value of
  \<^verbatim>\<open>new Date(s)\<close> in milliseconds (\<open>NaN\<close> for a string that does not parse), the time
  value of \<^verbatim>\<open>new Date()\<close>, and \<^verbatim>\<open>new Date().toISOString()\<close>. The time value of a
  \<^verbatim>\<open>Date\<close> is \<^verbatim>\<open>NaN\<close> or an integer of magnitude at most 8640000000000000
  (ECMAScript's \<^verbatim>\<open>TimeClip\<close>); the model clips what the parameter gives.
\<close>

record DateEnv =
  parseDate :: "string \<Rightarrow> number"
  nowMs :: int
  nowISO :: string

fun timeClip :: "number \<Rightarrow> number" where
  "timeClip (Num t) = (if \<bar>t\<bar> \<le> 8640000000000000 then Num t else NaN)"
| "timeClip NaN = NaN"

text \<open>\<^verbatim>\<open>v || d\<close> on a string that may be missing: the empty string is falsy.\<close>

definition or_str :: "string option \<Rightarrow> string \<Rightarrow> string" where
  "or_str v d = (case v of None \<Rightarrow> d | Some s \<Rightarrow> if s = [] then d else s)"

definition or_null :: "string option \<Rightarrow> string option" where
  "or_null v = (case v of None \<Rightarrow> None | Some s \<Rightarrow> if s = [] then None else Some s)"

section \<open>Alert levels, threat types and their metadata\<close>

definition AlertLevel_NONE :: string where "AlertLevel_NONE = ''none''"
definition AlertLevel_LOW :: string where "AlertLevel_LOW = ''low''"
definition AlertLevel_MEDIUM :: string where "AlertLevel_MEDIUM = ''medium''"
definition AlertLevel_HIGH :: string where "AlertLevel_HIGH = ''high''"
definition AlertLevel_CRITICAL :: string where "AlertLevel_CRITICAL = ''critical''"

definition ThreatType_AIR_RAID :: string where "ThreatType_AIR_RAID = ''air_raid''"
definition ThreatType_TACTICAL_AVIATION :: string where
  "ThreatType_TACTICAL_AVIATION = ''tactical_aviation''"
definition ThreatType_CRUISE_MISSILES :: string where
  "ThreatType_CRUISE_MISSILES = ''cruise_missiles''"
definition ThreatType_BALLISTIC_MISSILES :: string where
  "ThreatType_BALLISTIC_MISSILES = ''ballistic_missiles''"
definition ThreatType_DRONES :: string where "ThreatType_DRONES = ''drones''"
definition ThreatType_ARTILLERY :: string where "ThreatType_ARTILLERY = ''artillery''"
definition ThreatType_CHEMICAL :: string where "ThreatType_CHEMICAL = ''chemical''"
definition ThreatType_NUCLEAR :: string where "ThreatType_NUCLEAR = ''nuclear''"
definition ThreatType_STREET_FIGHTING :: string where
  "ThreatType_STREET_FIGHTING = ''street_fighting''"

text \<open>
  One entry of \<^verbatim>\<open>ThreatMetadata\<close>. The localized \<^verbatim>\<open>label\<close> is display text that no
  operation reads; it is left out.
\<close>

record ThreatMeta =
  icon :: string
  color :: string
  priority :: int
  pattern :: "string option"

definition ThreatMetadata_entries :: "(string \<times> ThreatMeta) list" where
  "ThreatMetadata_entries =
    [(ThreatType_AIR_RAID,
        \<lparr>icon = ''plane'', color = ''#dc143c'', priority = 10, pattern = None\<rparr>),
     (ThreatType_TACTICAL_AVIATION,
        \<lparr>icon = ''fighter-jet'', color = ''#ff6b6b'', priority = 8, pattern = None\<rparr>),
     (ThreatType_CRUISE_MISSILES,
        \<lparr>icon = ''rocket'', color = ''#ff4444'', priority = 9, pattern = None\<rparr>),
     (ThreatType_BALLISTIC_MISSILES,
        \<lparr>icon = ''missile'', color = ''#cc0000'', priority = 10, pattern = None\<rparr>),
     (ThreatType_DRONES,
        \<lparr>icon = ''drone'', color = ''#ff8866'', priority = 6, pattern = None\<rparr>),
     (ThreatType_ARTILLERY,
        \<lparr>icon = ''explosion'', color = ''#ff9999'', priority = 7, pattern = Some ''dotted''\<rparr>),
     (ThreatType_CHEMICAL,
        \<lparr>icon = ''biohazard'', color = ''#9932cc'', priority = 9, pattern = None\<rparr>),
     (ThreatType_NUCLEAR,
        \<lparr>icon = ''radiation'', color = ''#8b0000'', priority = 10, pattern = None\<rparr>),
     (ThreatType_STREET_FIGHTING,
        \<lparr>icon = ''shield-alt'', color = ''#cd5c5c'', priority = 5, pattern = Some ''striped''\<rparr>)]"

text \<open>
  \<^verbatim>\<open>ThreatMetadata\<close> is a plain object, so \<^verbatim>\<open>ThreatMetadata[threat]\<close> finds the nine
  entries of the table and also the members that every object inherits from
  \<^verbatim>\<open>Object.prototype\<close>. Those are functions, or the prototype object itself for
  \<^verbatim>\<open>__proto__\<close>: truthy values that have neither a \<^verbatim>\<open>priority\<close> nor a \<^verbatim>\<open>color\<close>. The
  names are those of ECMAScript's \<^verbatim>\<open>Object.prototype\<close>.
\<close>

definition objectPrototypeMembers :: "string list" where
  "objectPrototypeMembers =
    [''constructor'', ''hasOwnProperty'', ''isPrototypeOf'', ''propertyIsEnumerable'',
     ''toLocaleString'', ''toString'', ''valueOf'', ''__proto__'', ''__defineGetter__'',
     ''__defineSetter__'', ''__lookupGetter__'', ''__lookupSetter__'']"

datatype lookup = Own ThreatMeta | Inherited | Undefined

definition ThreatMetadata :: "string \<Rightarrow> lookup" where
  "ThreatMetadata threat =
    (case map_of ThreatMetadata_entries threat of
       Some meta \<Rightarrow> Own meta
     | None \<Rightarrow> if threat \<in> set objectPrototypeMembers then Inherited else Undefined)"

section \<open>The alert record\<close>

record Duration =
  days :: number
  hours :: number
  minutes :: number

definition zeroDuration :: Duration where
  "zeroDuration = \<lparr>days = Num 0, hours = Num 0, minutes = Num 0\<rparr>"

text \<open>An instance of class \<^verbatim>\<open>AlertData\<close>.\<close>

record AlertData =
  regionId :: string
  regionName :: string
  regionNameEn :: string
  alertLevel :: string
  threatTypes :: "string list"
  startTime :: "string option"
  endTime :: "string option"
  duration :: Duration
  intensity :: number
  subRegions :: "string list"
  isActive :: bool
  lastUpdated :: string

text \<open>
  A plain object with the keys of an alert record: the argument of the constructor,
  the value of \<^verbatim>\<open>toJSON\<close> and the partial update of \<^verbatim>\<open>mergeAlertData\<close>. \<open>None\<close> is a
  key that is missing, \<^verbatim>\<open>undefined\<close> or \<^verbatim>\<open>null\<close>: the constructor's \<^verbatim>\<open>||\<close> and the
  test in \<^verbatim>\<open>mergeAlertData\<close> treat the three alike. The flag \<^verbatim>\<open>isActive\<close> is a boolean
  or missing.
\<close>

record AlertPayload =
  raw_regionId :: "string option"
  raw_regionName :: "string option"
  raw_regionNameEn :: "string option"
  raw_alertLevel :: "string option"
  raw_threatTypes :: "string list option"
  raw_startTime :: "string option"
  raw_endTime :: "string option"
  raw_duration :: "Duration option"
  raw_intensity :: "number option"
  raw_subRegions :: "string list option"
  raw_isActive :: "bool option"
  raw_lastUpdated :: "string option"

definition emptyPayload :: AlertPayload where
  "emptyPayload = \<lparr>raw_regionId = None, raw_regionName = None, raw_regionNameEn = None,
     raw_alertLevel = None, raw_threatTypes = None, raw_startTime = None,
     raw_endTime = None, raw_duration = None, raw_intensity = None,
     raw_subRegions = None, raw_isActive = None, raw_lastUpdated = None\<rparr>"

text \<open>
  The constructor. An array and an object are truthy whatever they hold; the numbers 0
  and \<^verbatim>\<open>NaN\<close> are falsy and their default is 0.
\<close>

definition AlertData_new :: "DateEnv \<Rightarrow> AlertPayload \<Rightarrow> AlertData" where
  "AlertData_new env data =
    \<lparr>regionId = or_str (raw_regionId data) [],
     regionName = or_str (raw_regionName data) [],
     regionNameEn = or_str (raw_regionNameEn data) [],
     alertLevel = or_str (raw_alertLevel data) AlertLevel_NONE,
     threatTypes = (case raw_threatTypes data of None \<Rightarrow> [] | Some ts \<Rightarrow> ts),
     startTime = or_null (raw_startTime data),
     endTime = or_null (raw_endTime data),
     duration = (case raw_duration data of None \<Rightarrow> zeroDuration | Some d \<Rightarrow> d),
     intensity =
       (case raw_intensity data of
          None \<Rightarrow> Num 0
        | Some i \<Rightarrow> if i = Num 0 \<or> i = NaN then Num 0 else i),
     subRegions = (case raw_subRegions data of None \<Rightarrow> [] | Some rs \<Rightarrow> rs),
     isActive = (case raw_isActive data of None \<Rightarrow> False | Some b \<Rightarrow> b),
     lastUpdated = or_str (raw_lastUpdated data) (nowISO env)\<rparr>"

text \<open>
  \<^verbatim>\<open>calculateDuration\<close> returns the duration and stores it in the record; on a record
  with no start time it returns the zero duration and stores nothing.
\<close>

definition breakdown :: "number \<Rightarrow> Duration" where
  "breakdown diff =
    \<lparr>days = floor_div diff (1000 * 60 * 60 * 24),
     hours = floor_div (num_rem diff (1000 * 60 * 60 * 24)) (1000 * 60 * 60),
     minutes = floor_div (num_rem diff (1000 * 60 * 60)) (1000 * 60)\<rparr>"

definition dateOrNow :: "DateEnv \<Rightarrow> string option \<Rightarrow> number" where
  "dateOrNow env t =
    (case t of
       None \<Rightarrow> timeClip (Num (nowMs env))
     | Some e \<Rightarrow> if e = [] then timeClip (Num (nowMs env)) else timeClip (parseDate env e))"

definition calculateDuration :: "DateEnv \<Rightarrow> AlertData \<Rightarrow> Duration \<times> AlertData" where
  "calculateDuration env this =
    (case startTime this of
       None \<Rightarrow> (zeroDuration, this)
     | Some s \<Rightarrow>
         if s = [] then (zeroDuration, this)
         else
           let start = timeClip (parseDate env s);
               now = dateOrNow env (endTime this);
               diff = num_sub now start;
               d = breakdown diff
           in (d, this\<lparr>duration := d\<rparr>))"

text \<open>
  \<^verbatim>\<open>calculateIntensity\<close>: the \<^verbatim>\<open>forEach\<close> loop over the threat types, the duration
  bonus and the cap at 100.
\<close>

definition addThreat :: "string \<Rightarrow> number \<Rightarrow> number" where
  "addThreat threat acc =
    (case ThreatMetadata threat of
       Own metadata \<Rightarrow> num_add acc (num_mul (Num (priority metadata)) (Num 10))
     | Inherited \<Rightarrow> num_add acc (num_mul NaN (Num 10))
     | Undefined \<Rightarrow> acc)"

definition calculateIntensity :: "AlertData \<Rightarrow> number \<times> AlertData" where
  "calculateIntensity this =
    (let intensity0 = fold addThreat (threatTypes this) (Num 0);
         durationHours = num_add (num_mul (days (duration this)) (Num 24)) (hours (duration this));
         intensity1 =
           (if num_gt durationHours (Num 72) then num_add intensity0 (Num 20)
            else if num_gt durationHours (Num 24) then num_add intensity0 (Num 10)
            else if num_gt durationHours (Num 6) then num_add intensity0 (Num 5)
            else intensity0);
         result = num_min intensity1 (Num 100)
     in (result, this\<lparr>intensity := result\<rparr>))"

text \<open>
  \<^verbatim>\<open>getPrimaryThreat\<close>: \<^verbatim>\<open>reduce\<close> from the first element over the whole array; the
  priority of a token without metadata, or with an inherited member for metadata,
  counts as 0.
\<close>

definition priorityOr0 :: "string \<Rightarrow> int" where
  "priorityOr0 t =
    (case ThreatMetadata t of
       Own meta \<Rightarrow> if priority meta = 0 then 0 else priority meta
     | Inherited \<Rightarrow> 0
     | Undefined \<Rightarrow> 0)"

definition pickPrimary :: "string \<Rightarrow> string \<Rightarrow> string" where
  "pickPrimary primary current =
    (if priorityOr0 current > priorityOr0 primary then current else primary)"

definition getPrimaryThreat :: "AlertData \<Rightarrow> string option" where
  "getPrimaryThreat this =
    (case threatTypes this of
       [] \<Rightarrow> None
     | t0 # _ \<Rightarrow> Some (foldl pickPrimary t0 (threatTypes this)))"

text \<open>
  \<^verbatim>\<open>getColor\<close> returns a colour, or \<^verbatim>\<open>undefined\<close> (\<open>None\<close>) when the metadata found
  for the primary threat is an inherited member, which has no \<^verbatim>\<open>color\<close>.
\<close>

definition getColor :: "AlertData \<Rightarrow> string option" where
  "getColor this =
    (if alertLevel this = AlertLevel_NONE then Some ''#ffffff''
     else
       (case (case getPrimaryThreat this of
                None \<Rightarrow> Undefined
              | Some primaryThreat \<Rightarrow>
                  if primaryThreat = [] then Undefined else ThreatMetadata primaryThreat) of
          Own meta \<Rightarrow> Some (color meta)
        | Inherited \<Rightarrow> None
        | Undefined \<Rightarrow>
            if num_gt (intensity this) (Num 80) then Some ''#8b0000''
            else if num_gt (intensity this) (Num 60) then Some ''#dc143c''
            else if num_gt (intensity this) (Num 40) then Some ''#ff6b6b''
            else if num_gt (intensity this) (Num 20) then Some ''#ffcccb''
            else Some ''#ffe0e0''))"

definition isCritical :: "AlertData \<Rightarrow> bool" where
  "isCritical this =
    (alertLevel this = AlertLevel_CRITICAL \<or>
     ThreatType_BALLISTIC_MISSILES \<in> set (threatTypes this) \<or>
     ThreatType_NUCLEAR \<in> set (threatTypes this))"

definition toJSON :: "AlertData \<Rightarrow> AlertPayload" where
  "toJSON this =
    \<lparr>raw_regionId = Some (regionId this),
     raw_regionName = Some (regionName this),
     raw_regionNameEn = Some (regionNameEn this),
     raw_alertLevel = Some (alertLevel this),
     raw_threatTypes = Some (threatTypes this),
     raw_startTime = startTime this,
     raw_endTime = endTime this,
     raw_duration = Some (duration this),
     raw_intensity = Some (intensity this),
     raw_subRegions = Some (subRegions this),
     raw_isActive = Some (isActive this),
     raw_lastUpdated = Some (lastUpdated this)\<rparr>"

definition fromJSON :: "DateEnv \<Rightarrow> AlertPayload \<Rightarrow> AlertData" where
  "fromJSON env json = AlertData_new env json"

section \<open>History entries\<close>

text \<open>An instance of class \<^verbatim>\<open>AlertHistoryEntry\<close>; its \<^verbatim>\<open>duration\<close> may be \<^verbatim>\<open>null\<close>.\<close>

record AlertHistoryEntry =
  he_id :: string
  he_regionId :: string
  he_alertLevel :: string
  he_threatTypes :: "string list"
  he_startTime :: string
  he_endTime :: "string option"
  he_duration :: "Duration option"
  he_maxIntensity :: int

definition getTotalMinutes :: "AlertHistoryEntry \<Rightarrow> number" where
  "getTotalMinutes this =
    (case he_duration this of
       None \<Rightarrow> Num 0
     | Some d \<Rightarrow>
         num_add (num_add (num_mul (num_mul (days d) (Num 24)) (Num 60))
                          (num_mul (hours d) (Num 60)))
                 (minutes d))"

section \<open>Utilities\<close>

definition getAlertLevelFromIntensity :: "int \<Rightarrow> string" where
  "getAlertLevelFromIntensity i =
    (if i = 0 then AlertLevel_NONE
     else if i < 20 then AlertLevel_LOW
     else if i < 40 then AlertLevel_MEDIUM
     else if i < 70 then AlertLevel_HIGH
     else AlertLevel_CRITICAL)"

text \<open>
  \<^verbatim>\<open>mergeAlertData\<close>. \<^verbatim>\<open>new AlertData(existing)\<close> reads the properties of the existing
  record as it reads those of a payload; then every key of the update whose value is
  neither \<^verbatim>\<open>undefined\<close> nor \<^verbatim>\<open>null\<close> is assigned, and the derived fields are
  calculated again.
\<close>

definition asPayload :: "AlertData \<Rightarrow> AlertPayload" where
  "asPayload r =
    \<lparr>raw_regionId = Some (regionId r),
     raw_regionName = Some (regionName r),
     raw_regionNameEn = Some (regionNameEn r),
     raw_alertLevel = Some (alertLevel r),
     raw_threatTypes = Some (threatTypes r),
     raw_startTime = startTime r,
     raw_endTime = endTime r,
     raw_duration = Some (duration r),
     raw_intensity = Some (intensity r),
     raw_subRegions = Some (subRegions r),
     raw_isActive = Some (isActive r),
     raw_lastUpdated = Some (lastUpdated r)\<rparr>"

definition assignKeys :: "AlertData \<Rightarrow> AlertPayload \<Rightarrow> AlertData" where
  "assignKeys merged update =
    \<lparr>regionId = (case raw_regionId update of Some v \<Rightarrow> v | None \<Rightarrow> regionId merged),
     regionName = (case raw_regionName update of Some v \<Rightarrow> v | None \<Rightarrow> regionName merged),
     regionNameEn =
       (case raw_regionNameEn update of Some v \<Rightarrow> v | None \<Rightarrow> regionNameEn merged),
     alertLevel = (case raw_alertLevel update of Some v \<Rightarrow> v | None \<Rightarrow> alertLevel merged),
     threatTypes =
       (case raw_threatTypes update of Some v \<Rightarrow> v | None \<Rightarrow> threatTypes merged),
     startTime = (case raw_startTime update of Some v \<Rightarrow> Some v | None \<Rightarrow> startTime merged),
     endTime = (case raw_endTime update of Some v \<Rightarrow> Some v | None \<Rightarrow> endTime merged),
     duration = (case raw_duration update of Some v \<Rightarrow> v | None \<Rightarrow> duration merged),
     intensity = (case raw_intensity update of Some v \<Rightarrow> v | None \<Rightarrow> intensity merged),
     subRegions = (case raw_subRegions update of Some v \<Rightarrow> v | None \<Rightarrow> subRegions merged),
     isActive = (case raw_isActive update of Some v \<Rightarrow> v | None \<Rightarrow> isActive merged),
     lastUpdated =
       (case raw_lastUpdated update of Some v \<Rightarrow> v | None \<Rightarrow> lastUpdated merged)\<rparr>"

definition mergeAlertData :: "DateEnv \<Rightarrow> AlertData \<Rightarrow> AlertPayload \<Rightarrow> AlertData" where
  "mergeAlertData env existing update =
    (let merged0 = AlertData_new env (asPayload existing);
         merged1 = assignKeys merged0 update;
         merged2 = snd (calculateDuration env merged1);
         merged3 = snd (calculateIntensity merged2)
     in merged3)"

section \<open>Sorting by alert priority\<close>

text \<open>
  The comparator of \<^verbatim>\<open>sortByAlertPriority\<close> calls \<^verbatim>\<open>isCritical()\<close>, reads
  \<^verbatim>\<open>intensity\<close> and calls \<^verbatim>\<open>getTotalMinutes()\<close> on the elements of the array. The
  classes of the module that carry any of these are \<^verbatim>\<open>AlertData\<close> (\<^verbatim>\<open>isCritical\<close>
  and \<^verbatim>\<open>intensity\<close>) and \<^verbatim>\<open>AlertHistoryEntry\<close> (\<^verbatim>\<open>getTotalMinutes\<close>). Calling a
  method that the object does not have throws a \<^verbatim>\<open>TypeError\<close>; reading a property it
  does not have gives \<^verbatim>\<open>undefined\<close> (\<open>None\<close>).
\<close>

datatype jsobj = AlertDataObj AlertData | AlertHistoryEntryObj AlertHistoryEntry

fun call_isCritical :: "jsobj \<Rightarrow> error + bool" where
  "call_isCritical (AlertDataObj a) = Inr (isCritical a)"
| "call_isCritical (AlertHistoryEntryObj h) = Inl TypeError"

fun call_getTotalMinutes :: "jsobj \<Rightarrow> error + number" where
  "call_getTotalMinutes (AlertDataObj a) = Inl TypeError"
| "call_getTotalMinutes (AlertHistoryEntryObj h) = Inr (getTotalMinutes h)"

fun get_intensity :: "jsobj \<Rightarrow> number option" where
  "get_intensity (AlertDataObj a) = Some (intensity a)"
| "get_intensity (AlertHistoryEntryObj h) = None"

text \<open>\<^verbatim>\<open>x && y\<close> and \<^verbatim>\<open>!x\<close> where evaluating an operand may throw; \<open>y\<close> is evaluated
  only when \<open>x\<close> is true.\<close>

definition and_also :: "error + bool \<Rightarrow> error + bool \<Rightarrow> error + bool" where
  "and_also x y = (case x of Inl e \<Rightarrow> Inl e | Inr c \<Rightarrow> if c then y else Inr False)"

definition not_r :: "error + bool \<Rightarrow> error + bool" where
  "not_r x = (case x of Inl e \<Rightarrow> Inl e | Inr c \<Rightarrow> Inr (\<not> c))"

text \<open>
  \<^verbatim>\<open>x !== y\<close> on two property values: \<^verbatim>\<open>NaN\<close> differs from itself. Subtraction of
  two property values: \<^verbatim>\<open>undefined\<close> converts to \<^verbatim>\<open>NaN\<close>.
\<close>

definition strict_ne :: "number option \<Rightarrow> number option \<Rightarrow> bool" where
  "strict_ne x y = (x \<noteq> y \<or> x = Some NaN)"

definition prop_sub :: "number option \<Rightarrow> number option \<Rightarrow> number" where
  "prop_sub x y =
    num_sub (case x of None \<Rightarrow> NaN | Some n \<Rightarrow> n) (case y of None \<Rightarrow> NaN | Some n \<Rightarrow> n)"

definition comparePriority :: "jsobj \<Rightarrow> jsobj \<Rightarrow> error + number" where
  "comparePriority a b =
    (case and_also (call_isCritical a) (not_r (call_isCritical b)) of
       Inl e \<Rightarrow> Inl e
     | Inr c1 \<Rightarrow>
         if c1 then Inr (Num (- 1))
         else
           (case and_also (not_r (call_isCritical a)) (call_isCritical b) of
              Inl e \<Rightarrow> Inl e
            | Inr c2 \<Rightarrow>
                if c2 then Inr (Num 1)
                else if strict_ne (get_intensity a) (get_intensity b)
                  then Inr (prop_sub (get_intensity b) (get_intensity a))
                else
                  (case call_getTotalMinutes a of
                     Inl e \<Rightarrow> Inl e
                   | Inr aDuration \<Rightarrow>
                       (case call_getTotalMinutes b of
                          Inl e \<Rightarrow> Inl e
                        | Inr bDuration \<Rightarrow> Inr (num_sub bDuration aDuration)))))"

text \<open>
  \<^verbatim>\<open>Array.prototype.sort\<close> belongs to the engine. ECMAScript requires it to be stable,
  to place \<open>x\<close> after \<open>y\<close> only when the comparator's value is positive (a \<^verbatim>\<open>NaN\<close>
  counts as 0), and to end with the comparator's exception when it throws. The model
  is a stable insertion sort. An array of two elements is compared at least once by
  every engine.
\<close>

fun insertBy :: "('a \<Rightarrow> 'a \<Rightarrow> error + number) \<Rightarrow> 'a \<Rightarrow> 'a list \<Rightarrow> error + 'a list" where
  "insertBy cmp x [] = Inr [x]"
| "insertBy cmp x (y # ys) =
    (case cmp x y of
       Inl e \<Rightarrow> Inl e
     | Inr c \<Rightarrow>
         if num_gt c (Num 0)
         then (case insertBy cmp x ys of Inl e \<Rightarrow> Inl e | Inr zs \<Rightarrow> Inr (y # zs))
         else Inr (x # y # ys))"

fun array_sort :: "('a \<Rightarrow> 'a \<Rightarrow> error + number) \<Rightarrow> 'a list \<Rightarrow> error + 'a list" where
  "array_sort cmp [] = Inr []"
| "array_sort cmp (x # xs) =
    (case array_sort cmp xs of Inl e \<Rightarrow> Inl e | Inr sorted_xs \<Rightarrow> insertBy cmp x sorted_xs)"

definition sortByAlertPriority :: "jsobj list \<Rightarrow> error + jsobj list" where
  "sortByAlertPriority regions = array_sort comparePriority regions"

section \<open>The specification's reading of the intensity\<close>

text \<open>
  The intensity as the specification words it, to be compared with
  \<open>calculateIntensity\<close>: the sum over the threat types of ten times the priority (0 for a
  token without metadata), plus the bonus for the elapsed hours, clamped to the interval
  from 0 to 100.
\<close>

definition spec_threatScore :: "string \<Rightarrow> int" where
  "spec_threatScore t =
    (case map_of ThreatMetadata_entries t of Some meta \<Rightarrow> priority meta * 10 | None \<Rightarrow> 0)"

definition spec_durationBonus :: "Duration \<Rightarrow> int" where
  "spec_durationBonus d =
    (case (days d, hours d) of
       (Num dd, Num hh) \<Rightarrow>
         if dd * 24 + hh > 72 then 20
         else if dd * 24 + hh > 24 then 10
         else if dd * 24 + hh > 6 then 5
         else 0
     | _ \<Rightarrow> 0)"

definition spec_computeIntensity :: "string list \<Rightarrow> Duration \<Rightarrow> int" where
  "spec_computeIntensity ts d =
    max 0 (min 100 (sum_list (map spec_threatScore ts) + spec_durationBonus d))"

section \<open>Sample inputs\<close>

text \<open>
  An engine state with the time values of three timestamps; every other string is an
  invalid date. The current instant is 03:00 UTC on 1 January 2024.
\<close>

definition sampleEnv :: DateEnv where
  "sampleEnv =
    \<lparr>parseDate = (\<lambda>s.
        if s = ''2024-01-01T00:00:00.000Z'' then Num 1704067200000
        else if s = ''2024-01-01T02:00:00.000Z'' then Num 1704074400000
        else if s = ''2023-12-28T00:00:00.000Z'' then Num 1703721600000
        else NaN),
     nowMs = 1704078000000,
     nowISO = ''2024-01-01T03:00:00.000Z''\<rparr>"

definition kyivPayload :: AlertPayload where
  "kyivPayload = emptyPayload
    \<lparr>raw_regionId := Some ''kyiv'',
     raw_alertLevel := Some AlertLevel_HIGH,
     raw_threatTypes := Some [ThreatType_AIR_RAID],
     raw_startTime := Some ''2024-01-01T00:00:00.000Z''\<rparr>"

definition lvivPayload :: AlertPayload where
  "lvivPayload = emptyPayload
    \<lparr>raw_regionId := Some ''lviv'',
     raw_alertLevel := Some AlertLevel_HIGH,
     raw_threatTypes := Some [ThreatType_AIR_RAID, ThreatType_DRONES],
     raw_startTime := Some ''2024-01-01T02:00:00.000Z''\<rparr>"

text \<open>What the map component does with a payload: construct, then calculate.\<close>

definition processAlert :: "DateEnv \<Rightarrow> AlertPayload \<Rightarrow> AlertData" where
  "processAlert env data =
    snd (calculateIntensity (snd (calculateDuration env (AlertData_new env data))))"

definition kyivAlert :: AlertData where
  "kyivAlert = processAlert sampleEnv kyivPayload"

definition lvivAlert :: AlertData where
  "lvivAlert = processAlert sampleEnv lvivPayload"



definition dniproPayload :: AlertPayload where
  "dniproPayload = emptyPayload
    \<lparr>raw_regionId := Some ''dnipro'',
     raw_alertLevel := Some AlertLevel_MEDIUM,
     raw_threatTypes := Some [ThreatType_DRONES],
     raw_startTime := Some ''2024-01-01T00:00:00.000Z'',
     raw_isActive := Some True\<rparr>"

definition dniproAlert :: AlertData where
  "dniproAlert = processAlert sampleEnv dniproPayload"

text \<open>A payload that names no alert level, for a region under an air raid alert.\<close>

definition kharkivPayload :: AlertPayload where
  "kharkivPayload = emptyPayload
    \<lparr>raw_regionId := Some ''kharkiv'',
     raw_threatTypes := Some [ThreatType_AIR_RAID],
     raw_startTime := Some ''2024-01-01T02:00:00.000Z'',
     raw_isActive := Some True\<rparr>"

definition kharkivAlert :: AlertData where
  "kharkivAlert = processAlert sampleEnv kharkivPayload"

text \<open>A record with no payload at all, and one whose only threat token is unknown.\<close>

definition defaultAlert :: AlertData where
  "defaultAlert = AlertData_new sampleEnv emptyPayload"

definition smokeAlert :: AlertData where
  "smokeAlert = AlertData_new sampleEnv (emptyPayload
    \<lparr>raw_regionId := Some ''sumy'',
     raw_alertLevel := Some AlertLevel_LOW,
     raw_threatTypes := Some [''smoke''],
     raw_intensity := Some (Num 50)\<rparr>)"

text \<open>An update that carries a region identifier.\<close>

definition renameUpdate :: AlertPayload where
  "renameUpdate = emptyPayload\<lparr>raw_regionId := Some ''lviv''\<rparr>"

text \<open>A record whose end precedes its start, and one whose start does not parse.\<close>

definition reversedAlert :: AlertData where
  "reversedAlert = AlertData_new sampleEnv (kyivPayload
     \<lparr>raw_startTime := Some ''2024-01-01T02:00:00.000Z'',
      raw_endTime := Some ''2024-01-01T00:00:00.000Z''\<rparr>)"

definition garbledAlert :: AlertData where
  "garbledAlert =
     AlertData_new sampleEnv (kyivPayload\<lparr>raw_startTime := Some ''yesterday evening''\<rparr>)"

text \<open>The engine seven hours later, at 10:00 UTC.\<close>

definition laterEnv :: DateEnv where
  "laterEnv = sampleEnv\<lparr>nowMs := 1704103200000, nowISO := ''2024-01-01T10:00:00.000Z''\<rparr>"

text \<open>
  Two records of the specification's ranking scenario: one critical with intensity 60,
  one not critical with intensity 95.
\<close>

definition scenarioA :: AlertData where
  "scenarioA = defaultAlert\<lparr>regionId := ''a'', alertLevel := AlertLevel_CRITICAL, intensity := Num 60\<rparr>"

definition scenarioB :: AlertData where
  "scenarioB = defaultAlert\<lparr>regionId := ''b'', alertLevel := AlertLevel_HIGH, intensity := Num 95\<rparr>"

text \<open>
  A record whose threat token names a member that every object inherits, and a record
  whose end lies one millisecond before the last instant a \<^verbatim>\<open>Date\<close> can hold while its
  start is the first such instant.
\<close>

definition inheritedAlert :: AlertData where
  "inheritedAlert = AlertData_new sampleEnv (emptyPayload
    \<lparr>raw_regionId := Some ''poltava'',
     raw_alertLevel := Some AlertLevel_HIGH,
     raw_threatTypes := Some [''constructor'']\<rparr>)"

definition farEnv :: DateEnv where
  "farEnv =
    \<lparr>parseDate = (\<lambda>s.
        if s = ''-271821-04-20T00:00:00.000Z'' then Num (- 8640000000000000)
        else if s = ''+275760-09-12T23:59:59.999Z'' then Num 8639999999999999
        else NaN),
     nowMs = 1704078000000,
     nowISO = ''2024-01-01T03:00:00.000Z''\<rparr>"

definition farAlert :: AlertData where
  "farAlert = AlertData_new farEnv (emptyPayload
    \<lparr>raw_regionId := Some ''kyiv'',
     raw_startTime := Some ''-271821-04-20T00:00:00.000Z'',
     raw_endTime := Some ''+275760-09-12T23:59:59.999Z''\<rparr>)"

text \<open>
  A record whose stored days and hours are doubles so large that their product and sum
  are rounded.
\<close>

definition roundedAlert :: AlertData where
  "roundedAlert = defaultAlert
    \<lparr>duration := \<lparr>days = Num 9007199254740994, hours = Num (- 216172782113783840),
                   minutes = Num 0\<rparr>\<rparr>"

section \<open>Evaluation of the sample inputs\<close>

declare bitlen.simps [simp del]

lemmas AlertLevel_defs =
  AlertLevel_NONE_def AlertLevel_LOW_def AlertLevel_MEDIUM_def AlertLevel_HIGH_def
  AlertLevel_CRITICAL_def

lemmas ThreatType_defs =
  ThreatType_AIR_RAID_def ThreatType_TACTICAL_AVIATION_def ThreatType_CRUISE_MISSILES_def
  ThreatType_BALLISTIC_MISSILES_def ThreatType_DRONES_def ThreatType_ARTILLERY_def
  ThreatType_CHEMICAL_def ThreatType_NUCLEAR_def ThreatType_STREET_FIGHTING_def

lemma toDouble_small: "\<bar>x\<bar> \<le> 9007199254740992 \<Longrightarrow> toDouble x = x"
  by (simp add: toDouble_def)

lemmas model_defs =
  processAlert_def emptyPayload_def sampleEnv_def AlertData_new_def calculateDuration_def
  calculateIntensity_def Let_def or_str_def or_null_def dateOrNow_def breakdown_def
  addThreat_def ThreatMetadata_def ThreatMetadata_entries_def objectPrototypeMembers_def
  zeroDuration_def toDouble_small AlertLevel_defs ThreatType_defs

lemma kyivAlert_eval:
  "kyivAlert =
    \<lparr>regionId = ''kyiv'', regionName = [], regionNameEn = [], alertLevel = ''high'',
     threatTypes = [''air_raid''], startTime = Some ''2024-01-01T00:00:00.000Z'',
     endTime = None, duration = \<lparr>days = Num 0, hours = Num 3, minutes = Num 0\<rparr>,
     intensity = Num 100, subRegions = [], isActive = False,
     lastUpdated = ''2024-01-01T03:00:00.000Z''\<rparr>"
  by (simp add: kyivAlert_def kyivPayload_def model_defs)

lemma lvivAlert_eval:
  "lvivAlert =
    \<lparr>regionId = ''lviv'', regionName = [], regionNameEn = [], alertLevel = ''high'',
     threatTypes = [''air_raid'', ''drones''], startTime = Some ''2024-01-01T02:00:00.000Z'',
     endTime = None, duration = \<lparr>days = Num 0, hours = Num 1, minutes = Num 0\<rparr>,
     intensity = Num 100, subRegions = [], isActive = False,
     lastUpdated = ''2024-01-01T03:00:00.000Z''\<rparr>"
  by (simp add: lvivAlert_def lvivPayload_def model_defs)


lemma kharkivAlert_eval:
  "kharkivAlert =
    \<lparr>regionId = ''kharkiv'', regionName = [], regionNameEn = [], alertLevel = ''none'',
     threatTypes = [''air_raid''], startTime = Some ''2024-01-01T02:00:00.000Z'',
     endTime = None, duration = \<lparr>days = Num 0, hours = Num 1, minutes = Num 0\<rparr>,
     intensity = Num 100, subRegions = [], isActive = True,
     lastUpdated = ''2024-01-01T03:00:00.000Z''\<rparr>"
  by (simp add: kharkivAlert_def kharkivPayload_def model_defs)

lemma dniproAlert_eval:
  "dniproAlert =
    \<lparr>regionId = ''dnipro'', regionName = [], regionNameEn = [], alertLevel = ''medium'',
     threatTypes = [''drones''], startTime = Some ''2024-01-01T00:00:00.000Z'',
     endTime = None, duration = \<lparr>days = Num 0, hours = Num 3, minutes = Num 0\<rparr>,
     intensity = Num 60, subRegions = [], isActive = True,
     lastUpdated = ''2024-01-01T03:00:00.000Z''\<rparr>"
  by (simp add: dniproAlert_def dniproPayload_def model_defs)

lemma defaultAlert_eval:
  "defaultAlert =
    \<lparr>regionId = [], regionName = [], regionNameEn = [], alertLevel = ''none'',
     threatTypes = [], startTime = None, endTime = None,
     duration = \<lparr>days = Num 0, hours = Num 0, minutes = Num 0\<rparr>,
     intensity = Num 0, subRegions = [], isActive = False,
     lastUpdated = ''2024-01-01T03:00:00.000Z''\<rparr>"
  by (simp add: defaultAlert_def model_defs)

lemma smokeAlert_eval:
  "smokeAlert =
    \<lparr>regionId = ''sumy'', regionName = [], regionNameEn = [], alertLevel = ''low'',
     threatTypes = [''smoke''], startTime = None, endTime = None,
     duration = \<lparr>days = Num 0, hours = Num 0, minutes = Num 0\<rparr>,
     intensity = Num 50, subRegions = [], isActive = False,
     lastUpdated = ''2024-01-01T03:00:00.000Z''\<rparr>"
  by (simp add: smokeAlert_def model_defs)

lemma inheritedAlert_eval:
  "inheritedAlert =
    \<lparr>regionId = ''poltava'', regionName = [], regionNameEn = [], alertLevel = ''high'',
     threatTypes = [''constructor''], startTime = None, endTime = None,
     duration = \<lparr>days = Num 0, hours = Num 0, minutes = Num 0\<rparr>,
     intensity = Num 0, subRegions = [], isActive = False,
     lastUpdated = ''2024-01-01T03:00:00.000Z''\<rparr>"
  by (simp add: inheritedAlert_def model_defs)

section \<open>Doubles\<close>

lemma bitlen_bounds: "0 < n \<Longrightarrow> 2 ^ (bitlen n - 1) \<le> n \<and> n < 2 ^ bitlen n"
proof (induction n rule: bitlen.induct)
  case (1 n)
  show ?case
  proof (cases "n div 2 = 0")
    case True
    with "1.prems" have "n = 1" by (simp add: div_eq_0_iff)
    then show ?thesis by (simp add: bitlen.simps [of "Suc 0"] bitlen.simps [of 0])
  next
    case False
    with "1.IH" "1.prems"
    have IH: "2 ^ (bitlen (n div 2) - 1) \<le> n div 2" "n div 2 < 2 ^ bitlen (n div 2)" by auto
    have pos: "0 < bitlen (n div 2)" using False by (simp add: bitlen.simps [of "n div 2"])
    have bl: "bitlen n = Suc (bitlen (n div 2))" using "1.prems" by (simp add: bitlen.simps [of n])
    have "2 ^ (bitlen n - 1) = 2 * 2 ^ (bitlen (n div 2) - 1)"
      using pos by (cases "bitlen (n div 2)") (simp_all add: bl)
    also have "\<dots> \<le> 2 * (n div 2)" using IH(1) by simp
    also have "\<dots> \<le> n" by simp
    finally have lo: "2 ^ (bitlen n - 1) \<le> n" .
    have "n < 2 * (n div 2) + 2" by presburger
    also have "\<dots> \<le> 2 * 2 ^ bitlen (n div 2)" using IH(2) by simp
    finally have "n < 2 ^ bitlen n" by (simp add: bl)
    with lo show ?thesis by simp
  qed
qed

lemma toDouble_neg:
  assumes "x < 0"
  shows "toDouble x < 0"
proof (cases "\<bar>x\<bar> \<le> 9007199254740992")
  case True
  with assms show ?thesis by (simp add: toDouble_small)
next
  case False
  define n where "n = nat \<bar>x\<bar>"
  define u :: int where "u = 2 ^ (bitlen n - 53)"
  have n: "0 < n" "int n = \<bar>x\<bar>" using assms by (simp_all add: n_def)
  have u: "0 < u" by (simp add: u_def)
  have "(2::nat) ^ (bitlen n - 53) \<le> 2 ^ (bitlen n - 1)"
    by (rule power_increasing) simp_all
  also have "\<dots> \<le> n" using bitlen_bounds [OF n(1)] by simp
  finally have "int ((2::nat) ^ (bitlen n - 53)) \<le> int n" by (simp only: of_nat_le_iff)
  then have "u \<le> \<bar>x\<bar>" by (simp add: u_def n(2))
  then have q: "1 \<le> \<bar>x\<bar> div u" using zdiv_mono1 [of u "\<bar>x\<bar>" u] u by simp
  define q' where "q' = (if u < 2 * (\<bar>x\<bar> mod u) \<or> (2 * (\<bar>x\<bar> mod u) = u \<and> odd (\<bar>x\<bar> div u))
     then \<bar>x\<bar> div u + 1 else \<bar>x\<bar> div u)"
  have "0 < q'" using q by (simp add: q'_def)
  then have "0 < q' * u" using u by simp
  moreover have "toDouble x = sgn x * (q' * u)"
    using False by (simp add: toDouble_def Let_def q'_def u_def n_def)
  ultimately show ?thesis using assms by (simp add: mult_less_0_iff)
qed

lemma bitlen_far: "bitlen 17279999999999999 = 54"
  by (simp add: bitlen.simps)

lemma toDouble_far: "toDouble 17279999999999999 = 17280000000000000"
  by (simp add: toDouble_def Let_def bitlen_far)

section \<open>Intensity\<close>


lemma entries_not_inherited:
  "map_of ThreatMetadata_entries t = Some m \<Longrightarrow> t \<notin> set objectPrototypeMembers"
  by (auto simp: ThreatMetadata_entries_def objectPrototypeMembers_def ThreatType_defs
      split: if_splits)

lemma ThreatMetadata_Inherited:
  "ThreatMetadata t = Inherited \<longleftrightarrow> t \<in> set objectPrototypeMembers"
  using entries_not_inherited [of t]
  by (auto simp: ThreatMetadata_def split: option.splits)






lemma calculateIntensity_stores:
  "snd (calculateIntensity r) = r\<lparr>intensity := fst (calculateIntensity r)\<rparr>"
  by (simp add: calculateIntensity_def Let_def)

lemma calculateIntensity_cong:
  "threatTypes a = threatTypes b \<Longrightarrow> duration a = duration b \<Longrightarrow>
     fst (calculateIntensity a) = fst (calculateIntensity b)"
  by (simp add: calculateIntensity_def Let_def)





text \<open>
  Beyond the bounds the engine's rounding shows: for 9007199254740994 days and
  -216172782113783840 hours the exact sum of hours is 16, which earns the bonus 5, but
  the product is rounded up by 16, the sum of hours comes out as 32, and the bonus
  is 10.
\<close>

lemma bitlen_product: "bitlen 216172782113783856 = 58"
  by (simp add: bitlen.simps)

lemma calculateIntensity_rounded:
  "fst (calculateIntensity roundedAlert) = Num 10 \<and>
   spec_computeIntensity (threatTypes roundedAlert) (duration roundedAlert) = 5"
  by (simp add: roundedAlert_def defaultAlert_eval calculateIntensity_def Let_def
      toDouble_def bitlen_product spec_computeIntensity_def spec_durationBonus_def)


section \<open>Duration\<close>

lemma calculateDuration_unset:
  "startTime x = None \<or> startTime x = Some [] \<Longrightarrow>
     calculateDuration env x = (zeroDuration, x)"
  by (auto simp: calculateDuration_def)

lemma calculateDuration_set:
  "startTime x = Some s \<Longrightarrow> s \<noteq> [] \<Longrightarrow>
     calculateDuration env x =
       (breakdown (num_sub (dateOrNow env (endTime x)) (timeClip (parseDate env s))),
        x\<lparr>duration :=
            breakdown (num_sub (dateOrNow env (endTime x)) (timeClip (parseDate env s)))\<rparr>)"
  by (simp add: calculateDuration_def Let_def)

lemma calculateDuration_stores:
  "snd (calculateDuration env x) = x\<lparr>duration := duration (snd (calculateDuration env x))\<rparr>"
  by (simp add: calculateDuration_def Let_def split: option.splits)

lemma breakdown_nonneg:
  assumes "0 \<le> D"
  shows "breakdown (Num D) =
     \<lparr>days = Num (D div 86400000), hours = Num (D mod 86400000 div 3600000),
      minutes = Num (D mod 3600000 div 60000)\<rparr>"
  using assms by (simp add: breakdown_def)

lemma breakdown_parts:
  fixes D :: int
  shows "D div 86400000 = D div 60000 div 60 div 24"
    and "D mod 86400000 div 3600000 = D div 60000 div 60 mod 24"
    and "D mod 3600000 div 60000 = D div 60000 mod 60"
proof -
  have H: "D div 3600000 = D div 60000 div 60"
    using zdiv_zmult2_eq [of 60 D 60000] by simp
  show "D div 86400000 = D div 60000 div 60 div 24"
    using zdiv_zmult2_eq [of 24 D 3600000] by (simp add: H)
  show "D mod 86400000 div 3600000 = D div 60000 div 60 mod 24"
    using zmod_zmult2_eq [of 24 D 3600000] by (simp add: H)
  show "D mod 3600000 div 60000 = D div 60000 mod 60"
    using zmod_zmult2_eq [of 60 D 60000] by simp
qed

lemma minutes_split:
  fixes M :: int
  shows "M div 60 div 24 * 1440 + M div 60 mod 24 * 60 + M mod 60 = M"
proof -
  have "M div 60 div 24 * 24 + M div 60 mod 24 = M div 60" by simp
  moreover have "M div 60 * 60 + M mod 60 = M" by simp
  ultimately show ?thesis by linarith
qed

lemma breakdown_NaN: "breakdown NaN = \<lparr>days = NaN, hours = NaN, minutes = NaN\<rparr>"
  by (simp add: breakdown_def)

lemma num_sub_NaN: "num_sub x NaN = NaN" "num_sub NaN x = NaN"
  by (cases x; simp)+

text \<open>
  Claim C4, as the code has it. \<open>calculateDuration\<close> returns the zero duration when the
  start time is unset. With a start instant \<open>t0\<close> and an end instant \<open>t1\<close> (the end time
  when it is set, the current instant otherwise) such that \<open>t0 \<le> t1\<close> and \<open>t1 - t0\<close> is
  at most \<open>2 ^ 53\<close> milliseconds, it returns and stores days, hours below 24 and minutes
  below 60, none negative, that add up to the whole minutes of \<open>t1 - t0\<close>. There is no
  clamp at zero: when the end precedes the start, the days are negative.
\<close>

theorem calculateDuration_breakdown:
  "(startTime r = None \<or> startTime r = Some [] \<longrightarrow>
      fst (calculateDuration env r) = zeroDuration) \<and>
   (startTime r = Some s \<and> s \<noteq> [] \<and> timeClip (parseDate env s) = Num t0 \<and>
    dateOrNow env (endTime r) = Num t1 \<and> t0 \<le> t1 \<and> t1 - t0 \<le> 9007199254740992 \<longrightarrow>
      (\<exists>d h m. fst (calculateDuration env r) = \<lparr>days = Num d, hours = Num h, minutes = Num m\<rparr> \<and>
         0 \<le> d \<and> 0 \<le> h \<and> h < 24 \<and> 0 \<le> m \<and> m < 60 \<and>
         d * 1440 + h * 60 + m = (t1 - t0) div 60000) \<and>
      duration (snd (calculateDuration env r)) = fst (calculateDuration env r)) \<and>
   (startTime r = Some s \<and> s \<noteq> [] \<and> timeClip (parseDate env s) = Num t0 \<and>
    dateOrNow env (endTime r) = Num t1 \<and> t1 < t0 \<longrightarrow>
      (\<exists>d. days (fst (calculateDuration env r)) = Num d \<and> d < 0)) \<and>
   dateOrNow env None = timeClip (Num (nowMs env)) \<and>
   dateOrNow env (Some []) = timeClip (Num (nowMs env)) \<and>
   (e \<noteq> [] \<longrightarrow> dateOrNow env (Some e) = timeClip (parseDate env e)) \<and>
   (\<bar>t\<bar> \<le> 8640000000000000 \<longrightarrow> timeClip (Num t) = Num t) \<and>
   (8640000000000000 < \<bar>t\<bar> \<longrightarrow> timeClip (Num t) = NaN)"
proof -
  have unset: "startTime r = None \<or> startTime r = Some [] \<longrightarrow>
      fst (calculateDuration env r) = zeroDuration"
    by (auto simp: calculateDuration_unset)
  have forward: "startTime r = Some s \<and> s \<noteq> [] \<and> timeClip (parseDate env s) = Num t0 \<and>
    dateOrNow env (endTime r) = Num t1 \<and> t0 \<le> t1 \<and> t1 - t0 \<le> 9007199254740992 \<longrightarrow>
      (\<exists>d h m. fst (calculateDuration env r) = \<lparr>days = Num d, hours = Num h, minutes = Num m\<rparr> \<and>
         0 \<le> d \<and> 0 \<le> h \<and> h < 24 \<and> 0 \<le> m \<and> m < 60 \<and>
         d * 1440 + h * 60 + m = (t1 - t0) div 60000) \<and>
      duration (snd (calculateDuration env r)) = fst (calculateDuration env r)"
  proof (intro impI, elim conjE)
    assume that: "startTime r = Some s" "s \<noteq> []" "timeClip (parseDate env s) = Num t0"
      "dateOrNow env (endTime r) = Num t1" "t0 \<le> t1" "t1 - t0 \<le> 9007199254740992"
    define M where "M = (t1 - t0) div 60000"
    from that have D: "0 \<le> t1 - t0" by simp
    then have M: "0 \<le> M" by (simp add: M_def pos_imp_zdiv_nonneg_iff)
    from that D have eq: "calculateDuration env r =
        (breakdown (Num (t1 - t0)), r\<lparr>duration := breakdown (Num (t1 - t0))\<rparr>)"
      by (simp add: calculateDuration_set toDouble_small)
    have bd: "breakdown (Num (t1 - t0)) =
        \<lparr>days = Num (M div 60 div 24), hours = Num (M div 60 mod 24), minutes = Num (M mod 60)\<rparr>"
      unfolding breakdown_nonneg [OF D] breakdown_parts M_def ..
    have "0 \<le> M div 60 div 24" using M by (simp add: pos_imp_zdiv_nonneg_iff)
    moreover have "0 \<le> M div 60 mod 24" "M div 60 mod 24 < 24" "0 \<le> M mod 60" "M mod 60 < 60"
      by simp_all
    moreover note minutes_split [of M]
    ultimately show "(\<exists>d h m. fst (calculateDuration env r) =
           \<lparr>days = Num d, hours = Num h, minutes = Num m\<rparr> \<and>
         0 \<le> d \<and> 0 \<le> h \<and> h < 24 \<and> 0 \<le> m \<and> m < 60 \<and>
         d * 1440 + h * 60 + m = (t1 - t0) div 60000) \<and>
      duration (snd (calculateDuration env r)) = fst (calculateDuration env r)"
      unfolding eq fst_conv snd_conv bd M_def [symmetric] by auto
  qed
  have backward: "startTime r = Some s \<and> s \<noteq> [] \<and> timeClip (parseDate env s) = Num t0 \<and>
    dateOrNow env (endTime r) = Num t1 \<and> t1 < t0 \<longrightarrow>
      (\<exists>d. days (fst (calculateDuration env r)) = Num d \<and> d < 0)"
  proof (intro impI, elim conjE)
    assume that: "startTime r = Some s" "s \<noteq> []" "timeClip (parseDate env s) = Num t0"
      "dateOrNow env (endTime r) = Num t1" "t1 < t0"
    from that have "toDouble (t1 - t0) < 0" by (intro toDouble_neg) simp
    then have "toDouble (t1 - t0) div 86400000 < 0" by (simp add: div_neg_pos_less0)
    with that show "\<exists>d. days (fst (calculateDuration env r)) = Num d \<and> d < 0"
      by (simp add: calculateDuration_set breakdown_def)
  qed
  have ends: "dateOrNow env None = timeClip (Num (nowMs env)) \<and>
      dateOrNow env (Some []) = timeClip (Num (nowMs env)) \<and>
      (e \<noteq> [] \<longrightarrow> dateOrNow env (Some e) = timeClip (parseDate env e)) \<and>
      (\<bar>t\<bar> \<le> 8640000000000000 \<longrightarrow> timeClip (Num t) = Num t) \<and>
      (8640000000000000 < \<bar>t\<bar> \<longrightarrow> timeClip (Num t) = NaN)"
    by (simp add: dateOrNow_def)
  from conjI [OF unset conjI [OF forward conjI [OF backward ends]]] show ?thesis .
qed

theorem calculateDuration_breakdown_witness:
  "startTime kyivAlert = Some ''2024-01-01T00:00:00.000Z'' \<and>
   timeClip (parseDate sampleEnv ''2024-01-01T00:00:00.000Z'') = Num 1704067200000 \<and>
   dateOrNow sampleEnv (endTime kyivAlert) = Num 1704078000000 \<and>
   (\<exists>d h m. fst (calculateDuration sampleEnv kyivAlert) =
        \<lparr>days = Num d, hours = Num h, minutes = Num m\<rparr> \<and>
      0 \<le> d \<and> 0 \<le> h \<and> h < 24 \<and> 0 \<le> m \<and> m < 60 \<and> d * 1440 + h * 60 + m = 180) \<and>
   fst (calculateDuration sampleEnv defaultAlert) = zeroDuration \<and>
   (\<exists>d. days (fst (calculateDuration sampleEnv reversedAlert)) = Num d \<and> d < 0)"
proof -
  have k: "startTime kyivAlert = Some ''2024-01-01T00:00:00.000Z''"
    "timeClip (parseDate sampleEnv ''2024-01-01T00:00:00.000Z'') = Num 1704067200000"
    "dateOrNow sampleEnv (endTime kyivAlert) = Num 1704078000000"
    by (simp_all add: kyivAlert_eval sampleEnv_def dateOrNow_def)
  have d: "startTime defaultAlert = None"
    by (simp add: defaultAlert_def AlertData_new_def emptyPayload_def or_null_def)
  have r: "startTime reversedAlert = Some ''2024-01-01T02:00:00.000Z''"
    "timeClip (parseDate sampleEnv ''2024-01-01T02:00:00.000Z'') = Num 1704074400000"
    "dateOrNow sampleEnv (endTime reversedAlert) = Num 1704067200000"
    by (simp_all add: reversedAlert_def kyivPayload_def AlertData_new_def emptyPayload_def
        or_null_def sampleEnv_def dateOrNow_def)
  from k d r
    calculateDuration_breakdown [where r = kyivAlert and env = sampleEnv
      and s = "''2024-01-01T00:00:00.000Z''" and ?t0.0 = 1704067200000 and ?t1.0 = 1704078000000]
    calculateDuration_breakdown [where r = defaultAlert and env = sampleEnv]
    calculateDuration_breakdown [where r = reversedAlert and env = sampleEnv
      and s = "''2024-01-01T02:00:00.000Z''" and ?t0.0 = 1704074400000 and ?t1.0 = 1704067200000]
  show ?thesis by simp
qed

text \<open>
  The claim as the specification states it fails: for an alert that starts at 02:00
  and ends at 00:00 the same day the duration is not clamped to zero; it has negative
  days and hours.
\<close>

theorem calculateDuration_counterexample:
  "fst (calculateDuration sampleEnv reversedAlert) =
     \<lparr>days = Num (- 1), hours = Num (- 2), minutes = Num 0\<rparr>"
  by (simp add: reversedAlert_def kyivPayload_def model_defs)

text \<open>
  Beyond \<open>2 ^ 53\<close> milliseconds the difference is rounded as the engine rounds it: from
  the first instant a \<^verbatim>\<open>Date\<close> can hold to one millisecond before the last, the exact
  difference 17279999999999999 becomes 17280000000000000, and the duration is
  200000000 days with no hours and no minutes.
\<close>

lemma calculateDuration_far:
  "fst (calculateDuration farEnv farAlert) =
     \<lparr>days = Num 200000000, hours = Num 0, minutes = Num 0\<rparr>"
  by (simp add: farAlert_def farEnv_def emptyPayload_def AlertData_new_def or_null_def
      or_str_def calculateDuration_def dateOrNow_def Let_def toDouble_far breakdown_def)

text \<open>
  Claim C7, as the code has it. A start time that is a non-empty string and does not
  parse, or an end time of that kind on a record with a start time, gives the duration
  whose days, hours and minutes are all \<^verbatim>\<open>NaN\<close>, returned and stored; nothing is
  thrown. Only a start time that is \<^verbatim>\<open>null\<close> or the empty string is treated as absent
  and gives the zero duration, leaving the record as it is.
\<close>

theorem calculateDuration_invalid_date:
  "(startTime r = Some s \<and> s \<noteq> [] \<and> parseDate env s = NaN \<longrightarrow>
      fst (calculateDuration env r) = \<lparr>days = NaN, hours = NaN, minutes = NaN\<rparr> \<and>
      duration (snd (calculateDuration env r)) = \<lparr>days = NaN, hours = NaN, minutes = NaN\<rparr>) \<and>
   (startTime r = Some s \<and> s \<noteq> [] \<and> endTime r = Some e \<and> e \<noteq> [] \<and> parseDate env e = NaN \<longrightarrow>
      fst (calculateDuration env r) = \<lparr>days = NaN, hours = NaN, minutes = NaN\<rparr> \<and>
      duration (snd (calculateDuration env r)) = \<lparr>days = NaN, hours = NaN, minutes = NaN\<rparr>) \<and>
   (startTime r = None \<or> startTime r = Some [] \<longrightarrow>
      fst (calculateDuration env r) = zeroDuration \<and> snd (calculateDuration env r) = r)"
  by (auto simp: calculateDuration_set calculateDuration_unset breakdown_NaN num_sub_NaN
      dateOrNow_def)

theorem calculateDuration_invalid_date_witness:
  "startTime garbledAlert = Some ''yesterday evening'' \<and>
   parseDate sampleEnv ''yesterday evening'' = NaN \<and>
   fst (calculateDuration sampleEnv garbledAlert) = \<lparr>days = NaN, hours = NaN, minutes = NaN\<rparr> \<and>
   duration (snd (calculateDuration sampleEnv garbledAlert)) =
     \<lparr>days = NaN, hours = NaN, minutes = NaN\<rparr> \<and>
   fst (calculateDuration sampleEnv defaultAlert) = zeroDuration"
proof -
  have g: "startTime garbledAlert = Some ''yesterday evening''"
    "parseDate sampleEnv ''yesterday evening'' = NaN"
    by (simp_all add: garbledAlert_def kyivPayload_def AlertData_new_def emptyPayload_def
        or_null_def sampleEnv_def)
  have d: "startTime defaultAlert = None"
    by (simp add: defaultAlert_def AlertData_new_def emptyPayload_def or_null_def)
  from g d
    calculateDuration_invalid_date [where r = garbledAlert and env = sampleEnv
      and s = "''yesterday evening''"]
    calculateDuration_invalid_date [where r = defaultAlert and env = sampleEnv]
  show ?thesis by simp
qed

text \<open>
  The claim as the specification states it fails: the duration of a record whose start
  time does not parse is not the zero duration.
\<close>

theorem calculateDuration_invalid_date_counterexample:
  "fst (calculateDuration sampleEnv garbledAlert) \<noteq> zeroDuration"
  by (simp add: garbledAlert_def kyivPayload_def model_defs)

section \<open>Construction and merge\<close>

lemma or_str_idem: "or_str (Some (or_str v d)) d = or_str v d"
  by (simp add: or_str_def split: option.splits)

lemma or_null_idem: "or_null (or_null v) = or_null v"
  by (simp add: or_null_def split: option.splits)

lemma assignKeys_sel:
  "regionId (assignKeys m u) = (case raw_regionId u of Some v \<Rightarrow> v | None \<Rightarrow> regionId m)"
  "regionName (assignKeys m u) = (case raw_regionName u of Some v \<Rightarrow> v | None \<Rightarrow> regionName m)"
  "regionNameEn (assignKeys m u) =
     (case raw_regionNameEn u of Some v \<Rightarrow> v | None \<Rightarrow> regionNameEn m)"
  "alertLevel (assignKeys m u) = (case raw_alertLevel u of Some v \<Rightarrow> v | None \<Rightarrow> alertLevel m)"
  "threatTypes (assignKeys m u) =
     (case raw_threatTypes u of Some v \<Rightarrow> v | None \<Rightarrow> threatTypes m)"
  "startTime (assignKeys m u) = (case raw_startTime u of Some v \<Rightarrow> Some v | None \<Rightarrow> startTime m)"
  "endTime (assignKeys m u) = (case raw_endTime u of Some v \<Rightarrow> Some v | None \<Rightarrow> endTime m)"
  "duration (assignKeys m u) = (case raw_duration u of Some v \<Rightarrow> v | None \<Rightarrow> duration m)"
  "intensity (assignKeys m u) = (case raw_intensity u of Some v \<Rightarrow> v | None \<Rightarrow> intensity m)"
  "subRegions (assignKeys m u) = (case raw_subRegions u of Some v \<Rightarrow> v | None \<Rightarrow> subRegions m)"
  "isActive (assignKeys m u) = (case raw_isActive u of Some v \<Rightarrow> v | None \<Rightarrow> isActive m)"
  "lastUpdated (assignKeys m u) =
     (case raw_lastUpdated u of Some v \<Rightarrow> v | None \<Rightarrow> lastUpdated m)"
  by (simp_all add: assignKeys_def)

lemma copy_sel:
  "regionId (AlertData_new env (asPayload r)) = regionId r"
  "regionName (AlertData_new env (asPayload r)) = regionName r"
  "regionNameEn (AlertData_new env (asPayload r)) = regionNameEn r"
  "alertLevel (AlertData_new env (asPayload r)) = or_str (Some (alertLevel r)) AlertLevel_NONE"
  "threatTypes (AlertData_new env (asPayload r)) = threatTypes r"
  "startTime (AlertData_new env (asPayload r)) = or_null (startTime r)"
  "endTime (AlertData_new env (asPayload r)) = or_null (endTime r)"
  "duration (AlertData_new env (asPayload r)) = duration r"
  "intensity (AlertData_new env (asPayload r)) =
     (if intensity r = Num 0 \<or> intensity r = NaN then Num 0 else intensity r)"
  "subRegions (AlertData_new env (asPayload r)) = subRegions r"
  "isActive (AlertData_new env (asPayload r)) = isActive r"
  "lastUpdated (AlertData_new env (asPayload r)) = or_str (Some (lastUpdated r)) (nowISO env)"
  by (simp_all add: AlertData_new_def asPayload_def or_str_def)

lemma finish_eq:
  "snd (calculateIntensity (snd (calculateDuration env x))) =
     x\<lparr>duration := duration (snd (calculateDuration env x)),
       intensity := fst (calculateIntensity
         (x\<lparr>duration := duration (snd (calculateDuration env x))\<rparr>))\<rparr>"
proof -
  let ?y = "snd (calculateDuration env x)"
  have y: "?y = x\<lparr>duration := duration ?y\<rparr>" by (rule calculateDuration_stores)
  have "snd (calculateIntensity ?y) = ?y\<lparr>intensity := fst (calculateIntensity ?y)\<rparr>"
    by (rule calculateIntensity_stores)
  also have "fst (calculateIntensity ?y) = fst (calculateIntensity (x\<lparr>duration := duration ?y\<rparr>))"
    using y by simp
  also have "?y\<lparr>intensity := fst (calculateIntensity (x\<lparr>duration := duration ?y\<rparr>))\<rparr> =
      x\<lparr>duration := duration ?y,
        intensity := fst (calculateIntensity (x\<lparr>duration := duration ?y\<rparr>))\<rparr>"
    by (subst y) simp
  finally show ?thesis .
qed

lemma mergeAlertData_eq:
  "mergeAlertData env r u =
    (assignKeys (AlertData_new env (asPayload r)) u)
      \<lparr>duration := duration (snd (calculateDuration env
           (assignKeys (AlertData_new env (asPayload r)) u))),
       intensity := fst (calculateIntensity
         ((assignKeys (AlertData_new env (asPayload r)) u)
            \<lparr>duration := duration (snd (calculateDuration env
               (assignKeys (AlertData_new env (asPayload r)) u)))\<rparr>))\<rparr>"
  unfolding mergeAlertData_def Let_def finish_eq ..

text \<open>
  Claim C3, as the code has it. The active flag is a stored field: the constructor
  copies it from the payload (false when the payload has none), and a merge keeps the
  flag of the existing record unless the update carries one, which it then takes.
  Neither operation derives it from the end time or the threat types.
\<close>

theorem isActive_copied:
  "isActive (AlertData_new env d) = (case raw_isActive d of Some b \<Rightarrow> b | None \<Rightarrow> False) \<and>
   isActive (mergeAlertData env r u) =
     (case raw_isActive u of Some b \<Rightarrow> b | None \<Rightarrow> isActive r)"
proof
  show "isActive (AlertData_new env d) = (case raw_isActive d of Some b \<Rightarrow> b | None \<Rightarrow> False)"
    by (simp add: AlertData_new_def split: option.splits)
  show "isActive (mergeAlertData env r u) =
     (case raw_isActive u of Some b \<Rightarrow> b | None \<Rightarrow> isActive r)"
    by (simp add: mergeAlertData_eq assignKeys_sel copy_sel split: option.splits)
qed

theorem isActive_copied_witness:
  "isActive (AlertData_new sampleEnv kyivPayload) = False \<and>
   isActive (AlertData_new sampleEnv dniproPayload) = True \<and>
   isActive (mergeAlertData sampleEnv kyivAlert renameUpdate) = isActive kyivAlert \<and>
   isActive (mergeAlertData sampleEnv kyivAlert dniproPayload) = True"
  using isActive_copied [of sampleEnv kyivPayload kyivAlert renameUpdate]
    isActive_copied [of sampleEnv dniproPayload kyivAlert dniproPayload]
  by (simp add: kyivPayload_def dniproPayload_def renameUpdate_def emptyPayload_def)

text \<open>
  The claim as the specification states it fails: the record constructed from a
  payload with an air raid threat, a start time and no end time is not active, because
  the payload carries no flag.
\<close>

theorem isActive_counterexample:
  "\<not> (isActive (AlertData_new sampleEnv kyivPayload) =
       (endTime (AlertData_new sampleEnv kyivPayload) = None \<and>
        threatTypes (AlertData_new sampleEnv kyivPayload) \<noteq> []))"
  by (simp add: kyivPayload_def emptyPayload_def AlertData_new_def or_null_def)

text \<open>
  Claim C6, as the code has it. The region identifier is assigned like every other
  key: after a merge it is the update's identifier when the update carries one, and the
  existing record's identifier otherwise.
\<close>

theorem mergeAlertData_regionId:
  "regionId (mergeAlertData env r u) =
     (case raw_regionId u of Some v \<Rightarrow> v | None \<Rightarrow> regionId r)"
  by (simp add: mergeAlertData_eq assignKeys_sel copy_sel split: option.splits)

theorem mergeAlertData_regionId_witness:
  "regionId (mergeAlertData sampleEnv kyivAlert dniproPayload) = ''dnipro'' \<and>
   regionId (mergeAlertData sampleEnv kyivAlert emptyPayload) = regionId kyivAlert"
  using mergeAlertData_regionId [of sampleEnv kyivAlert dniproPayload]
    mergeAlertData_regionId [of sampleEnv kyivAlert emptyPayload]
  by (simp add: dniproPayload_def emptyPayload_def)

text \<open>
  The claim as the specification states it fails: an update that carries another
  region identifier changes the identifier of the merged record.
\<close>

theorem mergeAlertData_regionId_counterexample:
  "regionId (mergeAlertData sampleEnv kyivAlert renameUpdate) \<noteq> regionId kyivAlert"
  by (simp add: mergeAlertData_eq assignKeys_sel copy_sel renameUpdate_def emptyPayload_def
      kyivAlert_eval)

lemma calculateDuration_cong:
  assumes "startTime a = startTime b" and "endTime a = endTime b"
    and "startTime b = None \<or> startTime b = Some [] \<Longrightarrow> duration a = duration b"
  shows "duration (snd (calculateDuration env a)) = duration (snd (calculateDuration env b))"
proof (cases "startTime b = None \<or> startTime b = Some []")
  case True
  with assms show ?thesis by (auto simp: calculateDuration_unset)
next
  case False
  then obtain s where s: "startTime b = Some s" "s \<noteq> []" by (cases "startTime b") auto
  with assms show ?thesis by (simp add: calculateDuration_set)
qed

lemma reassign:
  "assignKeys (AlertData_new env (asPayload
      ((assignKeys (AlertData_new env (asPayload r)) u)\<lparr>duration := d, intensity := i\<rparr>))) u =
   (assignKeys (AlertData_new env (asPayload r)) u)
      \<lparr>duration := (case raw_duration u of Some v \<Rightarrow> v | None \<Rightarrow> d),
       intensity :=
         (case raw_intensity u of
            Some v \<Rightarrow> v
          | None \<Rightarrow> if i = Num 0 \<or> i = NaN then Num 0 else i)\<rparr>"
  by (rule AlertData.equality)
     (simp_all add: assignKeys_sel copy_sel or_str_idem or_null_idem split: option.splits)

text \<open>
  Claim C9. Merging the same update twice at the same instant gives the record that
  merging it once gives.
\<close>

theorem mergeAlertData_idempotent:
  "mergeAlertData env (mergeAlertData env r u) u = mergeAlertData env r u"
proof -
  define x1 where "x1 = assignKeys (AlertData_new env (asPayload r)) u"
  define d1 where "d1 = duration (snd (calculateDuration env x1))"
  define i1 where "i1 = fst (calculateIntensity (x1\<lparr>duration := d1\<rparr>))"
  define x2 where "x2 = x1\<lparr>duration := (case raw_duration u of Some v \<Rightarrow> v | None \<Rightarrow> d1),
                  intensity :=
                    (case raw_intensity u of
                       Some v \<Rightarrow> v
                     | None \<Rightarrow> if i1 = Num 0 \<or> i1 = NaN then Num 0 else i1)\<rparr>"
  have m1: "mergeAlertData env r u = x1\<lparr>duration := d1, intensity := i1\<rparr>"
    unfolding mergeAlertData_eq x1_def d1_def i1_def ..
  have re: "assignKeys (AlertData_new env (asPayload (x1\<lparr>duration := d1, intensity := i1\<rparr>))) u = x2"
    unfolding x1_def x2_def by (rule reassign)
  have m2: "mergeAlertData env (x1\<lparr>duration := d1, intensity := i1\<rparr>) u =
      x2\<lparr>duration := duration (snd (calculateDuration env x2)),
          intensity := fst (calculateIntensity
             (x2\<lparr>duration := duration (snd (calculateDuration env x2))\<rparr>))\<rparr>"
    unfolding mergeAlertData_eq re ..
  have unset: "duration x2 = duration x1"
    if "startTime x1 = None \<or> startTime x1 = Some []"
  proof (cases "raw_duration u")
    case None
    then show ?thesis using that by (auto simp: x2_def d1_def calculateDuration_unset)
  next
    case (Some v)
    then show ?thesis by (simp add: x2_def x1_def assignKeys_sel)
  qed
  have d2: "duration (snd (calculateDuration env x2)) = d1"
    unfolding d1_def by (rule calculateDuration_cong) (simp_all add: unset, simp_all add: x2_def)
  have i2: "fst (calculateIntensity (x2\<lparr>duration := d1\<rparr>)) = i1"
    unfolding i1_def by (rule calculateIntensity_cong) (simp_all add: x2_def)
  have "x2\<lparr>duration := d1, intensity := i1\<rparr> = x1\<lparr>duration := d1, intensity := i1\<rparr>"
    by (simp add: x2_def)
  with m1 m2 d2 i2 show ?thesis by simp
qed

theorem mergeAlertData_idempotent_witness:
  "mergeAlertData sampleEnv (mergeAlertData sampleEnv kyivAlert dniproPayload) dniproPayload =
     mergeAlertData sampleEnv kyivAlert dniproPayload"
  by (rule mergeAlertData_idempotent)

section \<open>Colour\<close>

lemma ThreatMetadata_air_raid:
  "ThreatMetadata ''air_raid'' =
     Own \<lparr>icon = ''plane'', color = ''#dc143c'', priority = 10, pattern = None\<rparr>"
  by (simp add: ThreatMetadata_def ThreatMetadata_entries_def ThreatType_defs)

lemma ThreatMetadata_smoke: "ThreatMetadata ''smoke'' = Undefined"
  by (simp add: ThreatMetadata_def ThreatMetadata_entries_def objectPrototypeMembers_def
      ThreatType_defs)

lemma ThreatMetadata_constructor: "ThreatMetadata ''constructor'' = Inherited"
  by (simp add: ThreatMetadata_def ThreatMetadata_entries_def objectPrototypeMembers_def
      ThreatType_defs)

lemma ThreatMetadata_empty: "ThreatMetadata [] = Undefined"
  by (simp add: ThreatMetadata_def ThreatMetadata_entries_def objectPrototypeMembers_def
      ThreatType_defs)

lemma ThreatMetadata_Own: "ThreatMetadata p = Own m \<longleftrightarrow> map_of ThreatMetadata_entries p = Some m"
  by (auto simp: ThreatMetadata_def split: option.splits)

lemma ThreatMetadata_Undefined:
  "ThreatMetadata p = Undefined \<longleftrightarrow>
     map_of ThreatMetadata_entries p = None \<and> p \<notin> set objectPrototypeMembers"
  by (auto simp: ThreatMetadata_def split: option.splits)

lemma getPrimaryThreat_single: "threatTypes r = [t] \<Longrightarrow> getPrimaryThreat r = Some t"
  by (simp add: getPrimaryThreat_def pickPrimary_def)

text \<open>
  When the primary threat names a member that every object inherits, the metadata
  found is truthy and has no colour: \<open>getColor\<close> returns \<^verbatim>\<open>undefined\<close>.
\<close>

lemma getColor_inherited:
  "alertLevel inheritedAlert \<noteq> AlertLevel_NONE \<and>
   getPrimaryThreat inheritedAlert = Some ''constructor'' \<and>
   getColor inheritedAlert = None"
  by (simp add: getColor_def getPrimaryThreat_single ThreatMetadata_constructor
      inheritedAlert_eval AlertLevel_defs)

text \<open>
  Claim C5, as the code has it. \<open>getColor\<close> is gated by the alert level, not by the
  active flag: a record whose alert level is \<^verbatim>\<open>none\<close> gets the neutral colour; any other
  record gets the metadata colour of its primary threat when that threat is a key of
  the metadata table; and when the record has no primary threat, or the primary threat
  is neither a key of the table nor the name of a member that every object inherits,
  it gets the colour of its intensity band (above 80, above 60, above 40, above 20,
  else the lightest, which is also the colour of the intensity \<^verbatim>\<open>NaN\<close>).
\<close>

theorem getColor_cases:
  "(alertLevel r = AlertLevel_NONE \<longrightarrow> getColor r = Some ''#ffffff'') \<and>
   (alertLevel r \<noteq> AlertLevel_NONE \<and> getPrimaryThreat r = Some p \<and>
    map_of ThreatMetadata_entries p = Some m
      \<longrightarrow> getColor r = Some (color m)) \<and>
   (alertLevel r \<noteq> AlertLevel_NONE \<and>
    (getPrimaryThreat r = None \<or>
     (getPrimaryThreat r = Some p \<and> map_of ThreatMetadata_entries p = None \<and>
      p \<notin> set objectPrototypeMembers))
      \<longrightarrow> (\<forall>i. intensity r = Num i \<longrightarrow>
             getColor r =
               Some (if i > 80 then ''#8b0000''
                     else if i > 60 then ''#dc143c''
                     else if i > 40 then ''#ff6b6b''
                     else if i > 20 then ''#ffcccb''
                     else ''#ffe0e0'')) \<and>
          (intensity r = NaN \<longrightarrow> getColor r = Some ''#ffe0e0''))"
proof -
  have none: "alertLevel r = AlertLevel_NONE \<longrightarrow> getColor r = Some ''#ffffff''"
    by (simp add: getColor_def)
  have own: "alertLevel r \<noteq> AlertLevel_NONE \<and> getPrimaryThreat r = Some p \<and>
      map_of ThreatMetadata_entries p = Some m \<longrightarrow> getColor r = Some (color m)"
    using ThreatMetadata_empty ThreatMetadata_Own [of p m]
    by (auto simp: getColor_def)
  have band: "alertLevel r \<noteq> AlertLevel_NONE \<and>
    (getPrimaryThreat r = None \<or>
     (getPrimaryThreat r = Some p \<and> map_of ThreatMetadata_entries p = None \<and>
      p \<notin> set objectPrototypeMembers))
      \<longrightarrow> (\<forall>i. intensity r = Num i \<longrightarrow>
             getColor r =
               Some (if i > 80 then ''#8b0000''
                     else if i > 60 then ''#dc143c''
                     else if i > 40 then ''#ff6b6b''
                     else if i > 20 then ''#ffcccb''
                     else ''#ffe0e0'')) \<and>
          (intensity r = NaN \<longrightarrow> getColor r = Some ''#ffe0e0'')"
    using ThreatMetadata_Undefined [of p]
    by (auto simp: getColor_def)
  from conjI [OF none conjI [OF own band]] show ?thesis .
qed

theorem getColor_cases_witness:
  "alertLevel defaultAlert = AlertLevel_NONE \<and> getColor defaultAlert = Some ''#ffffff'' \<and>
   alertLevel kyivAlert \<noteq> AlertLevel_NONE \<and> getPrimaryThreat kyivAlert = Some ''air_raid'' \<and>
   getColor kyivAlert = Some ''#dc143c'' \<and>
   alertLevel smokeAlert \<noteq> AlertLevel_NONE \<and> getPrimaryThreat smokeAlert = Some ''smoke'' \<and>
   map_of ThreatMetadata_entries ''smoke'' = None \<and> ''smoke'' \<notin> set objectPrototypeMembers \<and>
   intensity smokeAlert = Num 50 \<and> getColor smokeAlert = Some ''#ff6b6b''"
proof -
  have d: "alertLevel defaultAlert = AlertLevel_NONE"
    by (simp add: defaultAlert_eval AlertLevel_defs)
  have k: "alertLevel kyivAlert \<noteq> AlertLevel_NONE" "getPrimaryThreat kyivAlert = Some ''air_raid''"
    by (simp_all add: kyivAlert_eval AlertLevel_defs getPrimaryThreat_single)
  have a: "map_of ThreatMetadata_entries ''air_raid'' =
      Some \<lparr>icon = ''plane'', color = ''#dc143c'', priority = 10, pattern = None\<rparr>"
    by (simp add: ThreatMetadata_entries_def ThreatType_defs)
  have s: "alertLevel smokeAlert \<noteq> AlertLevel_NONE" "getPrimaryThreat smokeAlert = Some ''smoke''"
    "intensity smokeAlert = Num 50"
    by (simp_all add: smokeAlert_eval AlertLevel_defs getPrimaryThreat_single)
  have u: "map_of ThreatMetadata_entries ''smoke'' = None" "''smoke'' \<notin> set objectPrototypeMembers"
    by (simp_all add: ThreatMetadata_entries_def objectPrototypeMembers_def ThreatType_defs)
  from d k a s u
    getColor_cases [where r = defaultAlert]
    getColor_cases [where r = kyivAlert and p = "''air_raid''"
      and m = "\<lparr>icon = ''plane'', color = ''#dc143c'', priority = 10, pattern = None\<rparr>"]
    getColor_cases [where r = smokeAlert and p = "''smoke''"]
  show ?thesis by simp
qed

text \<open>
  The claim as the specification states it fails both ways: a record that is not
  active but has alert level \<^verbatim>\<open>high\<close> gets the colour of its air raid threat, and an
  active record under an air raid alert whose payload named no alert level gets the
  neutral colour.
\<close>

theorem getColor_counterexample:
  "\<not> isActive kyivAlert \<and> getColor kyivAlert = Some ''#dc143c'' \<and>
   isActive kharkivAlert \<and> getPrimaryThreat kharkivAlert = Some ''air_raid'' \<and>
   ThreatMetadata ''air_raid'' \<noteq> Undefined \<and> getColor kharkivAlert = Some ''#ffffff''"
  by (simp add: getColor_def getPrimaryThreat_single ThreatMetadata_air_raid
      kyivAlert_eval kharkivAlert_eval AlertLevel_defs)

section \<open>Alert level bands\<close>

text \<open>
  Claim C10. \<open>getAlertLevelFromIntensity\<close> gives \<^verbatim>\<open>none\<close> exactly at intensity 0,
  \<^verbatim>\<open>low\<close> between 0 and 20, \<^verbatim>\<open>medium\<close> from 20 up to 40, \<^verbatim>\<open>high\<close> from 40 up to 70 and
  \<^verbatim>\<open>critical\<close> from 70 on; the five levels are different tokens. The function reads
  nothing but the intensity, so its thresholds stand apart from the hours of the
  duration bonus. They are not the colour bands either: the level changes between 65
  and 75 where the fallback colour does not, and the colour changes between 75 and 85
  where the level does not.
\<close>

theorem getAlertLevelFromIntensity_bands:
  "(getAlertLevelFromIntensity i = AlertLevel_NONE \<longleftrightarrow> i = 0) \<and>
   (0 < i \<and> i < 20 \<longrightarrow> getAlertLevelFromIntensity i = AlertLevel_LOW) \<and>
   (20 \<le> i \<and> i < 40 \<longrightarrow> getAlertLevelFromIntensity i = AlertLevel_MEDIUM) \<and>
   (40 \<le> i \<and> i < 70 \<longrightarrow> getAlertLevelFromIntensity i = AlertLevel_HIGH) \<and>
   (70 \<le> i \<longrightarrow> getAlertLevelFromIntensity i = AlertLevel_CRITICAL) \<and>
   distinct [AlertLevel_NONE, AlertLevel_LOW, AlertLevel_MEDIUM, AlertLevel_HIGH,
             AlertLevel_CRITICAL] \<and>
   getAlertLevelFromIntensity 65 \<noteq> getAlertLevelFromIntensity 75 \<and>
   getColor (smokeAlert\<lparr>intensity := Num 65\<rparr>) =
     getColor (smokeAlert\<lparr>intensity := Num 75\<rparr>) \<and>
   getAlertLevelFromIntensity 75 = getAlertLevelFromIntensity 85 \<and>
   getColor (smokeAlert\<lparr>intensity := Num 75\<rparr>) \<noteq>
     getColor (smokeAlert\<lparr>intensity := Num 85\<rparr>)"
proof -
  have colours:
    "getColor (smokeAlert\<lparr>intensity := Num 65\<rparr>) = Some ''#dc143c''"
    "getColor (smokeAlert\<lparr>intensity := Num 75\<rparr>) = Some ''#dc143c''"
    "getColor (smokeAlert\<lparr>intensity := Num 85\<rparr>) = Some ''#8b0000''"
    by (simp_all add: getColor_def getPrimaryThreat_single ThreatMetadata_smoke
        smokeAlert_eval AlertLevel_defs)
  show ?thesis
    by (simp add: colours) (simp add: getAlertLevelFromIntensity_def AlertLevel_defs)
qed

theorem getAlertLevelFromIntensity_bands_witness:
  "getAlertLevelFromIntensity 0 = AlertLevel_NONE \<and>
   getAlertLevelFromIntensity 1 = AlertLevel_LOW \<and>
   getAlertLevelFromIntensity 19 = AlertLevel_LOW \<and>
   getAlertLevelFromIntensity 20 = AlertLevel_MEDIUM \<and>
   getAlertLevelFromIntensity 39 = AlertLevel_MEDIUM \<and>
   getAlertLevelFromIntensity 40 = AlertLevel_HIGH \<and>
   getAlertLevelFromIntensity 69 = AlertLevel_HIGH \<and>
   getAlertLevelFromIntensity 70 = AlertLevel_CRITICAL \<and>
   getAlertLevelFromIntensity 100 = AlertLevel_CRITICAL"
  using getAlertLevelFromIntensity_bands [of 0] getAlertLevelFromIntensity_bands [of 1]
    getAlertLevelFromIntensity_bands [of 19] getAlertLevelFromIntensity_bands [of 20]
    getAlertLevelFromIntensity_bands [of 39] getAlertLevelFromIntensity_bands [of 40]
    getAlertLevelFromIntensity_bands [of 69] getAlertLevelFromIntensity_bands [of 70]
    getAlertLevelFromIntensity_bands [of 100]
  by simp

section \<open>Serialization\<close>

lemma fromJSON_toJSON_id:
  assumes "alertLevel r \<noteq> []" "startTime r \<noteq> Some []" "endTime r \<noteq> Some []"
    "lastUpdated r \<noteq> []" "intensity r \<noteq> NaN"
  shows "fromJSON env (toJSON r) = r"
  using assms
  by (intro AlertData.equality)
     (simp_all add: fromJSON_def toJSON_def AlertData_new_def or_str_def or_null_def
        split: option.splits)

lemma AlertData_new_normalised:
  assumes "nowISO env \<noteq> []"
  shows "alertLevel (AlertData_new env d) \<noteq> []" "startTime (AlertData_new env d) \<noteq> Some []"
    "endTime (AlertData_new env d) \<noteq> Some []" "lastUpdated (AlertData_new env d) \<noteq> []"
    "intensity (AlertData_new env d) \<noteq> NaN"
  using assms
  by (simp_all add: AlertData_new_def or_str_def or_null_def AlertLevel_defs split: option.splits)

text \<open>
  An intensity that is \<^verbatim>\<open>NaN\<close> does not survive the round trip: the constructor's
  \<^verbatim>\<open>||\<close> replaces it by 0.
\<close>

lemma fromJSON_toJSON_NaN: "intensity (fromJSON env (toJSON (r\<lparr>intensity := NaN\<rparr>))) = Num 0"
  by (simp add: fromJSON_def toJSON_def AlertData_new_def)

text \<open>
  Claim C8, as the code has it. For a record whose alert level and last update are
  not empty, whose start and end time are \<^verbatim>\<open>null\<close> or not empty and whose intensity is
  not \<^verbatim>\<open>NaN\<close> (every record the constructor returns is one), \<open>fromJSON\<close> of \<open>toJSON\<close>
  gives the record back, every field equal. \<open>fromJSON\<close> is the constructor: it takes
  the duration and the intensity from the serialized object as they are (0 for an
  intensity that is missing or \<^verbatim>\<open>NaN\<close>) and calculates nothing.
\<close>

theorem fromJSON_toJSON:
  "(alertLevel r \<noteq> [] \<and> startTime r \<noteq> Some [] \<and> endTime r \<noteq> Some [] \<and> lastUpdated r \<noteq> [] \<and>
    intensity r \<noteq> NaN
      \<longrightarrow> fromJSON env (toJSON r) = r) \<and>
   (nowISO env0 \<noteq> [] \<longrightarrow>
      fromJSON env (toJSON (AlertData_new env0 d)) = AlertData_new env0 d) \<and>
   duration (fromJSON env json) = (case raw_duration json of Some v \<Rightarrow> v | None \<Rightarrow> zeroDuration) \<and>
   intensity (fromJSON env json) =
     (case raw_intensity json of Some i \<Rightarrow> if i = NaN then Num 0 else i | None \<Rightarrow> Num 0) \<and>
   duration (fromJSON env (toJSON r)) = duration r \<and>
   (intensity r \<noteq> NaN \<longrightarrow> intensity (fromJSON env (toJSON r)) = intensity r)"
proof -
  have rt: "alertLevel r \<noteq> [] \<and> startTime r \<noteq> Some [] \<and> endTime r \<noteq> Some [] \<and>
      lastUpdated r \<noteq> [] \<and> intensity r \<noteq> NaN \<longrightarrow> fromJSON env (toJSON r) = r"
    by (simp add: fromJSON_toJSON_id)
  have new: "nowISO env0 \<noteq> [] \<longrightarrow>
      fromJSON env (toJSON (AlertData_new env0 d)) = AlertData_new env0 d"
    by (simp add: fromJSON_toJSON_id AlertData_new_normalised)
  have snap: "duration (fromJSON env j) =
        (case raw_duration j of Some v \<Rightarrow> v | None \<Rightarrow> zeroDuration) \<and>
      intensity (fromJSON env j) =
        (case raw_intensity j of Some i \<Rightarrow> if i = NaN then Num 0 else i | None \<Rightarrow> Num 0)"
    for j
    by (simp add: fromJSON_def AlertData_new_def split: option.splits)
  have same: "duration (fromJSON env (toJSON r)) = duration r \<and>
      (intensity r \<noteq> NaN \<longrightarrow> intensity (fromJSON env (toJSON r)) = intensity r)"
    by (simp add: snap) (simp add: toJSON_def)
  from rt new snap [of json] same show ?thesis by simp
qed

theorem fromJSON_toJSON_witness:
  "alertLevel dniproAlert \<noteq> [] \<and> startTime dniproAlert \<noteq> Some [] \<and>
   endTime dniproAlert \<noteq> Some [] \<and> lastUpdated dniproAlert \<noteq> [] \<and>
   intensity dniproAlert \<noteq> NaN \<and>
   fromJSON laterEnv (toJSON dniproAlert) = dniproAlert \<and>
   nowISO sampleEnv \<noteq> [] \<and>
   fromJSON laterEnv (toJSON (AlertData_new sampleEnv kyivPayload)) =
     AlertData_new sampleEnv kyivPayload"
proof -
  have p: "alertLevel dniproAlert \<noteq> []" "startTime dniproAlert \<noteq> Some []"
    "endTime dniproAlert \<noteq> Some []" "lastUpdated dniproAlert \<noteq> []"
    "intensity dniproAlert \<noteq> NaN"
    by (simp_all add: dniproAlert_eval)
  have n: "nowISO sampleEnv \<noteq> []" by (simp add: sampleEnv_def)
  from p n fromJSON_toJSON [where r = dniproAlert and env = laterEnv and ?env0.0 = sampleEnv
      and d = kyivPayload]
  show ?thesis by simp
qed

text \<open>
  The claim as the specification states it fails: a record serialized at 03:00 and
  loaded at 10:00 keeps the duration of three hours and the intensity 60 of the
  snapshot, where calculating on load gives ten hours and 65.
\<close>

theorem fromJSON_counterexample:
  "duration (fromJSON laterEnv (toJSON dniproAlert)) =
     \<lparr>days = Num 0, hours = Num 3, minutes = Num 0\<rparr> \<and>
   fst (calculateDuration laterEnv (fromJSON laterEnv (toJSON dniproAlert))) =
     \<lparr>days = Num 0, hours = Num 10, minutes = Num 0\<rparr> \<and>
   intensity (fromJSON laterEnv (toJSON dniproAlert)) = Num 60 \<and>
   fst (calculateIntensity
     (snd (calculateDuration laterEnv (fromJSON laterEnv (toJSON dniproAlert))))) = Num 65"
  by (simp add: dniproAlert_eval laterEnv_def fromJSON_def toJSON_def model_defs)

section \<open>Sorting\<close>

lemma comparePriority_AlertData_tie:
  "isCritical a = isCritical b \<Longrightarrow> intensity a = Num n \<Longrightarrow> intensity b = Num n \<Longrightarrow>
     comparePriority (AlertDataObj a) (AlertDataObj b) = Inl TypeError"
  by (simp add: comparePriority_def and_also_def not_r_def strict_ne_def)

lemma comparePriority_AlertHistoryEntry:
  "comparePriority (AlertHistoryEntryObj h) b = Inl TypeError"
  "comparePriority a (AlertHistoryEntryObj h) = Inl TypeError"
  by (cases a; simp add: comparePriority_def and_also_def not_r_def)+

lemma comparePriority_criticality:
  "isCritical a \<Longrightarrow> \<not> isCritical b \<Longrightarrow>
     comparePriority (AlertDataObj a) (AlertDataObj b) = Inr (Num (- 1)) \<and>
     comparePriority (AlertDataObj b) (AlertDataObj a) = Inr (Num 1)"
  by (simp add: comparePriority_def and_also_def not_r_def)

lemma comparePriority_intensity:
  "isCritical a = isCritical b \<Longrightarrow> intensity a \<noteq> intensity b \<Longrightarrow>
     comparePriority (AlertDataObj a) (AlertDataObj b) =
       Inr (num_sub (intensity b) (intensity a))"
  by (simp add: comparePriority_def and_also_def not_r_def prop_sub_def strict_ne_def)

text \<open>
  Whenever two \<^verbatim>\<open>AlertData\<close> records agree on criticality and have the same intensity,
  a number, sorting the pair throws: the comparator reaches the call of
  \<^verbatim>\<open>getTotalMinutes\<close>.
\<close>

theorem sortByAlertPriority_tie_pair:
  "isCritical a = isCritical b \<Longrightarrow> intensity a = Num n \<Longrightarrow> intensity b = Num n \<Longrightarrow>
    sortByAlertPriority [AlertDataObj a, AlertDataObj b] = Inl TypeError"
  by (simp add: sortByAlertPriority_def comparePriority_AlertData_tie)

theorem sortByAlertPriority_tie_pair_witness:
  "isCritical defaultAlert = isCritical smokeAlert \<and>
   intensity defaultAlert = Num 0 \<and>
   sortByAlertPriority
     [AlertDataObj defaultAlert, AlertDataObj (smokeAlert\<lparr>intensity := Num 0\<rparr>)] = Inl TypeError"
proof -
  have c: "isCritical defaultAlert = isCritical (smokeAlert\<lparr>intensity := Num 0\<rparr>)"
    "isCritical defaultAlert = isCritical smokeAlert"
    by (simp_all add: isCritical_def defaultAlert_eval smokeAlert_eval AlertLevel_defs
        ThreatType_defs)
  have i: "intensity defaultAlert = Num 0" "intensity (smokeAlert\<lparr>intensity := Num 0\<rparr>) = Num 0"
    by (simp_all add: defaultAlert_eval)
  from c(2) i(1) sortByAlertPriority_tie_pair [OF c(1) i] show ?thesis by simp
qed

text \<open>
  Criticality beats intensity: a critical record is sorted before a record that is not
  critical, whatever their intensities; the comparator decides on its first key and
  never reaches the call that throws.
\<close>

theorem sortByAlertPriority_criticality_first:
  "isCritical a \<Longrightarrow> \<not> isCritical b \<Longrightarrow>
    sortByAlertPriority [AlertDataObj b, AlertDataObj a] = Inr [AlertDataObj a, AlertDataObj b]"
  by (simp add: sortByAlertPriority_def comparePriority_criticality)

theorem sortByAlertPriority_criticality_first_witness:
  "isCritical scenarioA \<and> \<not> isCritical scenarioB \<and>
   intensity scenarioA = Num 60 \<and> intensity scenarioB = Num 95 \<and>
   sortByAlertPriority [AlertDataObj scenarioB, AlertDataObj scenarioA] =
     Inr [AlertDataObj scenarioA, AlertDataObj scenarioB]"
proof -
  have a: "isCritical scenarioA" "intensity scenarioA = Num 60"
    by (simp_all add: isCritical_def scenarioA_def)
  have b: "\<not> isCritical scenarioB" "intensity scenarioB = Num 95"
    by (simp_all add: isCritical_def scenarioB_def defaultAlert_eval AlertLevel_defs
        ThreatType_defs)
  from a b sortByAlertPriority_criticality_first [OF a(1) b(1)] show ?thesis by simp
qed

text \<open>
  Claim C1. The comparator orders two alert records by criticality and then by
  intensity, but for the third key it calls \<^verbatim>\<open>getTotalMinutes\<close>, which class
  \<^verbatim>\<open>AlertData\<close> does not define. The two sample records for Kyiv and Lviv are both not
  critical and both have intensity 100; sorting them, in either order, ends with a
  \<^verbatim>\<open>TypeError\<close> instead of a list.
\<close>

theorem sortByAlertPriority_tie_throws:
  "isCritical kyivAlert = isCritical lvivAlert \<and> intensity kyivAlert = intensity lvivAlert \<and>
   sortByAlertPriority [AlertDataObj kyivAlert, AlertDataObj lvivAlert] = Inl TypeError \<and>
   sortByAlertPriority [AlertDataObj lvivAlert, AlertDataObj kyivAlert] = Inl TypeError"
  by (simp add: sortByAlertPriority_def comparePriority_def and_also_def not_r_def
      strict_ne_def isCritical_def kyivAlert_eval lvivAlert_eval AlertLevel_defs
      ThreatType_defs)

end
